theory Spec2Isabelle
  imports Complex_Main "HOL-Library.Sublist"
begin

section \<open>Values carried on the channel\<close>

text \<open>
  Payloads and OCPP responses are plain JavaScript objects. An object is kept as the
  list of its own properties in insertion order; a property may hold \<open>undefined\<close>
  and still be present (\<open>'k' in obj\<close>).
\<close>

datatype jvalue =
    JUndefined
  | JNull
  | JBool bool
  | JNum int
  | JStr string
  | JArr "jvalue list"
  | JObj "(string \<times> jvalue) list"

type_synonym jobject = "(string \<times> jvalue) list"

text \<open>\<open>obj.k\<close>: the value of the property, \<open>undefined\<close> when the object has none.\<close>

definition get_prop :: "jobject \<Rightarrow> string \<Rightarrow> jvalue" where
  "get_prop obj k = (case map_of obj k of None \<Rightarrow> JUndefined | Some v \<Rightarrow> v)"

text \<open>\<open>'k' in obj\<close>.\<close>

definition has_prop :: "jobject \<Rightarrow> string \<Rightarrow> bool" where
  "has_prop obj k = (map_of obj k \<noteq> None)"

text \<open>\<open>v == null\<close>: true of \<open>null\<close> and of \<open>undefined\<close> only.\<close>

fun nullish :: "jvalue \<Rightarrow> bool" where
  "nullish JUndefined = True"
| "nullish JNull = True"
| "nullish _ = False"

text \<open>\<open>v?.k\<close> and \<open>v.k\<close> on a value that is not nullish: primitives have no such property.\<close>

fun opt_prop :: "jvalue \<Rightarrow> string \<Rightarrow> jvalue" where
  "opt_prop (JObj obj) k = get_prop obj k"
| "opt_prop _ k = JUndefined"

text \<open>\<open>delete obj.k\<close>.\<close>

definition delete_prop :: "string \<Rightarrow> jobject \<Rightarrow> jobject" where
  "delete_prop k obj = filter (\<lambda>kv. fst kv \<noteq> k) obj"

text \<open>\<open>obj[k] = v\<close>: an existing property keeps its place, a new one goes last.\<close>

fun set_prop :: "string \<Rightarrow> jvalue \<Rightarrow> jobject \<Rightarrow> jobject" where
  "set_prop k v [] = [(k, v)]"
| "set_prop k v ((k', v') # obj) =
     (if k' = k then (k, v) # obj else (k', v') # set_prop k v obj)"

text \<open>\<open>{ ...a, ...b }\<close>: the properties of \<open>b\<close> are written over those of \<open>a\<close>.\<close>

definition spread :: "jobject \<Rightarrow> jobject \<Rightarrow> jobject" where
  "spread a b = foldl (\<lambda>acc kv. set_prop (fst kv) (snd kv) acc) a b"

text \<open>Spreading a value that is not an object (\<open>undefined\<close>, say) copies nothing.\<close>

fun own_props :: "jvalue \<Rightarrow> jobject" where
  "own_props (JObj obj) = obj"
| "own_props _ = []"

text \<open>rambda's \<open>isEmpty\<close> on an object: it has no own property.\<close>

definition isEmpty :: "jobject \<Rightarrow> bool" where
  "isEmpty obj = (obj = [])"

section \<open>Enumerations\<close>

text \<open>
  The members of \<open>RequestCommand\<close> that the handler table forwards. They are written
  qualified (\<open>RequestCommand.HEARTBEAT\<close>), as in the source; an unqualified name is a
  procedure name.
\<close>

datatype RequestCommand =
    START_TRANSACTION
  | STOP_TRANSACTION
  | AUTHORIZE
  | BOOT_NOTIFICATION
  | STATUS_NOTIFICATION
  | HEARTBEAT
  | METER_VALUES
  | DATA_TRANSFER
  | DIAGNOSTICS_STATUS_NOTIFICATION
  | FIRMWARE_STATUS_NOTIFICATION

text \<open>
  \<open>BroadcastChannelProcedureName\<close> is declared under \<open>src/types\<close>; its members are the
  keys of the handler table. A command arrives on the channel as a string, so beside the
  members there is \<open>OTHER s\<close>: a string \<open>s\<close> that is the value of no member.
\<close>

datatype BroadcastChannelProcedureName =
    START_CHARGING_STATION
  | STOP_CHARGING_STATION
  | DELETE_CHARGING_STATIONS
  | OPEN_CONNECTION
  | CLOSE_CONNECTION
  | START_AUTOMATIC_TRANSACTION_GENERATOR
  | STOP_AUTOMATIC_TRANSACTION_GENERATOR
  | SET_SUPERVISION_URL
  | START_TRANSACTION
  | STOP_TRANSACTION
  | AUTHORIZE
  | BOOT_NOTIFICATION
  | STATUS_NOTIFICATION
  | HEARTBEAT
  | METER_VALUES
  | DATA_TRANSFER
  | DIAGNOSTICS_STATUS_NOTIFICATION
  | FIRMWARE_STATUS_NOTIFICATION
  | OTHER string

datatype ResponseStatus = SUCCESS | FAILURE

text \<open>
  Modelled from the spec: the \<open>ACCEPTED\<close> members of \<open>AuthorizationStatus\<close>,
  \<open>RegistrationStatusEnumType\<close> and \<open>DataTransferStatus\<close>, three enumerations of
  strings declared under \<open>src/types\<close>. Nothing below depends on the strings chosen.
\<close>

definition AuthorizationStatus_ACCEPTED :: jvalue where
  "AuthorizationStatus_ACCEPTED = JStr ''Accepted''"

definition RegistrationStatusEnumType_ACCEPTED :: jvalue where
  "RegistrationStatusEnumType_ACCEPTED = JStr ''Accepted''"

definition DataTransferStatus_ACCEPTED :: jvalue where
  "DataTransferStatus_ACCEPTED = JStr ''Accepted''"

section \<open>The response classifier\<close>

text \<open>\<open>commandResponseToResponseStatus\<close>: one verdict per command, as the \<open>switch\<close> has it.\<close>

fun commandResponseToResponseStatus ::
  "BroadcastChannelProcedureName \<Rightarrow> jobject \<Rightarrow> ResponseStatus" where
  "commandResponseToResponseStatus START_TRANSACTION commandResponse =
     (if opt_prop (get_prop commandResponse ''idTagInfo'') ''status'' = AuthorizationStatus_ACCEPTED
      then SUCCESS else FAILURE)"
| "commandResponseToResponseStatus STOP_TRANSACTION commandResponse =
     (if opt_prop (get_prop commandResponse ''idTagInfo'') ''status'' = AuthorizationStatus_ACCEPTED
      then SUCCESS else FAILURE)"
| "commandResponseToResponseStatus AUTHORIZE commandResponse =
     (if opt_prop (get_prop commandResponse ''idTagInfo'') ''status'' = AuthorizationStatus_ACCEPTED
      then SUCCESS else FAILURE)"
| "commandResponseToResponseStatus BOOT_NOTIFICATION commandResponse =
     (if get_prop commandResponse ''status'' = RegistrationStatusEnumType_ACCEPTED
      then SUCCESS else FAILURE)"
| "commandResponseToResponseStatus DATA_TRANSFER commandResponse =
     (if get_prop commandResponse ''status'' = DataTransferStatus_ACCEPTED
      then SUCCESS else FAILURE)"
| "commandResponseToResponseStatus STATUS_NOTIFICATION commandResponse =
     (if isEmpty commandResponse then SUCCESS else FAILURE)"
| "commandResponseToResponseStatus METER_VALUES commandResponse =
     (if isEmpty commandResponse then SUCCESS else FAILURE)"
| "commandResponseToResponseStatus HEARTBEAT commandResponse =
     (if has_prop commandResponse ''currentTime'' then SUCCESS else FAILURE)"
| "commandResponseToResponseStatus _ commandResponse = FAILURE"

section \<open>Calls, failures and traces\<close>

text \<open>
  What a thrown value answers to \<open>.message\<close>, \<open>.stack\<close> and \<open>.details\<close>
  (\<open>BaseError\<close>, \<open>OCPPError\<close>, or an error the engine raises itself).
\<close>

record OCPPError =
  message :: string
  stack :: jvalue
  details :: jvalue

text \<open>A call returns a value or throws; an awaited promise resolves or rejects.\<close>

datatype 'a outcome = Returns 'a | Throws OCPPError

record RequestParams =
  skipBufferingOnError :: "bool option"
  throwError :: "bool option"

datatype StopTransactionReason = NONE | OTHER_REASON string

text \<open>The methods of the station handle that act on the station; none returns a value that is used.\<close>

datatype station_call =
    Station_start
  | Station_stop
  | Station_delete jvalue
  | OpenWSConnection
  | CloseWSConnection
  | StartAutomaticTransactionGenerator jvalue
  | StopAutomaticTransactionGenerator jvalue
  | SetSupervisionUrl jvalue

text \<open>The calls on \<open>ocppRequestService\<close>; each is awaited and answers with an OCPP response.\<close>

datatype ocpp_call =
    RequestHandler RequestCommand jobject RequestParams
  | SendAuthorize nat string
  | SendStartTransaction nat "string option"
  | SendStopTransaction jvalue jvalue string StopTransactionReason

datatype log_level = Error | Warn | Info

text \<open>
  The part of \<open>stationInfo\<close> that is read. Its \<open>hashId\<close> is written qualified
  (\<open>ChargingStationInfo.hashId\<close>); unqualified, \<open>hashId\<close> is the field of a response payload.
\<close>

record AutomaticTransactionGeneratorConfiguration =
  stopAfterHours :: "real option"
  probabilityOfStart :: real

record ChargingStationInfo =
  hashId :: string
  AutomaticTransactionGenerator :: "AutomaticTransactionGeneratorConfiguration option"

record BroadcastChannelResponsePayload =
  hashId :: "string option"
  status :: ResponseStatus
  command :: "BroadcastChannelProcedureName option"
  requestPayload :: "jobject option"
  commandResponse :: "jobject option"
  errorMessage :: "string option"
  errorStack :: "jvalue option"
  errorDetails :: "jvalue option"

text \<open>
  Everything the code does to the world outside its own fields, in the order it does it.
  \<open>Invoke\<close> marks the point where \<open>commandHandler\<close> calls a handler of the table, with
  the payload it passes. A logged line is kept without the prefix \<open>logPrefix()\<close> builds
  and without the durations and counters printed into it; \<open>console.log\<close> is left out.
\<close>

datatype event =
    StationCall station_call
  | OcppCall ocpp_call
  | BeginMeasure string
  | EndMeasure string string
  | Logger log_level string
  | Invoke BroadcastChannelProcedureName jobject
  | SendResponse string BroadcastChannelResponsePayload

type_synonym 'a effect = "event list \<times> 'a outcome"

definition result :: "'a \<Rightarrow> 'a effect" where
  "result a = ([], Returns a)"

definition throw :: "OCPPError \<Rightarrow> 'a effect" where
  "throw e = ([], Throws e)"

text \<open>Sequencing: the second part runs only if the first returned, after it.\<close>

definition and_then :: "'a effect \<Rightarrow> ('a \<Rightarrow> 'b effect) \<Rightarrow> 'b effect" where
  "and_then m f =
     (case snd m of
        Throws e \<Rightarrow> (fst m, Throws e)
      | Returns a \<Rightarrow> (fst m @ fst (f a), snd (f a)))"

definition emit :: "event \<Rightarrow> unit effect" where
  "emit ev = ([ev], Returns ())"

section \<open>The collaborators\<close>

record Connector =
  transactionStarted :: "bool option"
  transactionId :: "int option"

datatype StandardParametersKey = MeterValueSampleInterval

text \<open>
  What a message event carries: a request \<open>[uuid, command, requestPayload]\<close> or a
  response \<open>[uuid, responsePayload]\<close>.
\<close>

datatype BroadcastChannelData =
    Request string BroadcastChannelProcedureName jobject
  | Response string BroadcastChannelResponsePayload

record MessageEvent =
  data :: BroadcastChannelData

text \<open>
  The station handle, the inherited \<open>WorkerBroadcastChannel\<close> methods, the imported
  helpers, the clock and the random source: all declared outside the two classes, so each
  is a parameter, as it stands at the moment the code runs. Reads are functions; a method
  that acts on the station, and every OCPP request, goes through \<open>station_does\<close> or
  \<open>ocpp_answers\<close>, which say whether the call returns or throws. \<open>connectors\<close> lists the
  keys of the connector table, \<open>ocppRequestService\<close> says whether the service is there,
  \<open>now\<close> is what \<open>new Date()\<close> reads: a whole number of milliseconds.
\<close>

record collaborators =
  stationInfo :: "ChargingStationInfo option"
  bootNotificationRequest :: jvalue
  connectors :: "nat list"
  station_does :: "station_call \<Rightarrow> unit outcome"
  ocpp_answers :: "ocpp_call \<Rightarrow> jobject option outcome"
  getEnergyActiveImportRegisterByTransactionId :: "jvalue \<Rightarrow> bool option \<Rightarrow> jvalue"
  getConnectorStatus :: "jvalue \<Rightarrow> Connector option"
  getConnector :: "nat \<Rightarrow> Connector option"
  getTransactionIdTag :: "jvalue \<Rightarrow> string"
  hasAuthorizedTags :: bool
  getRandomIdTag :: string
  getAutomaticTransactionGeneratorRequireAuthorize :: bool
  getConfigurationKey :: "StandardParametersKey \<Rightarrow> jobject option"
  buildMeterValue :: "jvalue \<Rightarrow> int option \<Rightarrow> int \<Rightarrow> jvalue"
  convertToInt :: "jvalue \<Rightarrow> int outcome"
  beginMeasure :: "string \<Rightarrow> string"
  now :: int
  isRegistered :: bool
  isChargingStationAvailable :: bool
  isConnectorAvailable :: "nat \<Rightarrow> bool"
  ocppRequestService :: bool
  secureRandom :: real
  validateMessageEvent :: "MessageEvent \<Rightarrow> MessageEvent option"
  isResponse :: "BroadcastChannelData \<Rightarrow> bool"
  procedureText :: "BroadcastChannelProcedureName \<Rightarrow> string"
  errorStackOf :: "string \<Rightarrow> jvalue"
  engineTypeError :: OCPPError

definition station :: "collaborators \<Rightarrow> station_call \<Rightarrow> unit effect" where
  "station env c = ([StationCall c], station_does env c)"

definition ocpp :: "collaborators \<Rightarrow> ocpp_call \<Rightarrow> jobject option effect" where
  "ocpp env c = ([OcppCall c], ocpp_answers env c)"

section \<open>The command dispatcher\<close>

definition requestParams :: RequestParams where
  "requestParams = \<lparr>skipBufferingOnError = None, throwError = Some True\<rparr>"

text \<open>Modelled from the spec: \<open>Constants.DEFAULT_METER_VALUES_INTERVAL\<close>, 60000 ms.\<close>

definition DEFAULT_METER_VALUES_INTERVAL :: int where
  "DEFAULT_METER_VALUES_INTERVAL = 60000"

definition secondsToMilliseconds :: "int \<Rightarrow> int" where
  "secondsToMilliseconds seconds = seconds * 1000"

text \<open>A handler that forwards the payload as it is to the OCPP request service.\<close>

definition forward :: "collaborators \<Rightarrow> RequestCommand \<Rightarrow> jobject \<Rightarrow> jobject option effect" where
  "forward env rc payload = ocpp env (RequestHandler rc payload requestParams)"

text \<open>A handler that calls a method of the station and returns nothing.\<close>

definition lifecycle :: "collaborators \<Rightarrow> station_call \<Rightarrow> jobject option effect" where
  "lifecycle env c = and_then (station env c) (\<lambda>_. result None)"

text \<open>
  The \<open>METER_VALUES\<close> handler. The connector status is dereferenced before the interval
  is computed; without a status that dereference throws.
\<close>

definition meterValuesHandler :: "collaborators \<Rightarrow> jobject \<Rightarrow> jobject option effect" where
  "meterValuesHandler env payload =
     (let configuredMeterValueSampleInterval = getConfigurationKey env MeterValueSampleInterval
      in case getConnectorStatus env (get_prop payload ''connectorId'') of
           None \<Rightarrow> throw (engineTypeError env)
         | Some connectorStatus \<Rightarrow>
             and_then
               (case configuredMeterValueSampleInterval of
                  Some key \<Rightarrow>
                    and_then ([], convertToInt env (get_prop key ''value''))
                      (\<lambda>n. result (secondsToMilliseconds n))
                | None \<Rightarrow> result DEFAULT_METER_VALUES_INTERVAL)
               (\<lambda>interval.
                  ocpp env
                    (RequestHandler RequestCommand.METER_VALUES
                       (spread
                          [(''meterValue'',
                            JArr [buildMeterValue env (get_prop payload ''connectorId'')
                                    (transactionId connectorStatus) interval])]
                          payload)
                       requestParams)))"

text \<open>\<open>commandHandlers\<close>: the table the constructor builds, \<open>None\<close> where it has no entry.\<close>

fun commandHandlers ::
  "collaborators \<Rightarrow> BroadcastChannelProcedureName \<Rightarrow> (jobject \<Rightarrow> jobject option effect) option" where
  "commandHandlers env START_CHARGING_STATION = Some (\<lambda>payload. lifecycle env Station_start)"
| "commandHandlers env STOP_CHARGING_STATION = Some (\<lambda>payload. lifecycle env Station_stop)"
| "commandHandlers env DELETE_CHARGING_STATIONS =
     Some (\<lambda>payload. lifecycle env (Station_delete (get_prop payload ''deleteConfiguration'')))"
| "commandHandlers env OPEN_CONNECTION = Some (\<lambda>payload. lifecycle env OpenWSConnection)"
| "commandHandlers env CLOSE_CONNECTION = Some (\<lambda>payload. lifecycle env CloseWSConnection)"
| "commandHandlers env START_AUTOMATIC_TRANSACTION_GENERATOR =
     Some (\<lambda>payload.
       lifecycle env (StartAutomaticTransactionGenerator (get_prop payload ''connectorIds'')))"
| "commandHandlers env STOP_AUTOMATIC_TRANSACTION_GENERATOR =
     Some (\<lambda>payload.
       lifecycle env (StopAutomaticTransactionGenerator (get_prop payload ''connectorIds'')))"
| "commandHandlers env SET_SUPERVISION_URL =
     Some (\<lambda>payload. lifecycle env (SetSupervisionUrl (get_prop payload ''url'')))"
| "commandHandlers env START_TRANSACTION =
     Some (\<lambda>payload. forward env RequestCommand.START_TRANSACTION payload)"
| "commandHandlers env STOP_TRANSACTION =
     Some (\<lambda>payload.
       forward env RequestCommand.STOP_TRANSACTION
         (spread
            [(''meterStop'',
              getEnergyActiveImportRegisterByTransactionId env
                (get_prop payload ''transactionId'') (Some True))]
            payload))"
| "commandHandlers env AUTHORIZE = Some (\<lambda>payload. forward env RequestCommand.AUTHORIZE payload)"
| "commandHandlers env BOOT_NOTIFICATION =
     Some (\<lambda>payload.
       ocpp env
         (RequestHandler RequestCommand.BOOT_NOTIFICATION
            (spread (own_props (bootNotificationRequest env)) payload)
            \<lparr>skipBufferingOnError = Some True, throwError = Some True\<rparr>))"
| "commandHandlers env STATUS_NOTIFICATION =
     Some (\<lambda>payload. forward env RequestCommand.STATUS_NOTIFICATION payload)"
| "commandHandlers env HEARTBEAT = Some (\<lambda>payload. forward env RequestCommand.HEARTBEAT payload)"
| "commandHandlers env METER_VALUES = Some (meterValuesHandler env)"
| "commandHandlers env DATA_TRANSFER =
     Some (\<lambda>payload. forward env RequestCommand.DATA_TRANSFER payload)"
| "commandHandlers env DIAGNOSTICS_STATUS_NOTIFICATION =
     Some (\<lambda>payload. forward env RequestCommand.DIAGNOSTICS_STATUS_NOTIFICATION payload)"
| "commandHandlers env FIRMWARE_STATUS_NOTIFICATION =
     Some (\<lambda>payload. forward env RequestCommand.FIRMWARE_STATUS_NOTIFICATION payload)"
| "commandHandlers env (OTHER s) = None"

text \<open>\<open>cleanRequestPayload\<close> deletes in place; the model returns the payload as it is left.\<close>

definition cleanRequestPayload :: "BroadcastChannelProcedureName \<Rightarrow> jobject \<Rightarrow> jobject" where
  "cleanRequestPayload cmd payload =
     (let payload1 = delete_prop ''hashId'' payload;
          payload2 = delete_prop ''hashIds'' payload1
      in if cmd \<notin> set [START_AUTOMATIC_TRANSACTION_GENERATOR, STOP_AUTOMATIC_TRANSACTION_GENERATOR]
         then delete_prop ''connectorIds'' payload2
         else payload2)"

text \<open>The command as the template literal prints it.\<close>

fun commandText :: "collaborators \<Rightarrow> BroadcastChannelProcedureName \<Rightarrow> string" where
  "commandText env (OTHER s) = s"
| "commandText env cmd = procedureText env cmd"

definition BaseError :: "collaborators \<Rightarrow> string \<Rightarrow> OCPPError" where
  "BaseError env text = \<lparr>message = text, stack = errorStackOf env text, details = JUndefined\<rparr>"

definition unknownCommandMessage :: "collaborators \<Rightarrow> BroadcastChannelProcedureName \<Rightarrow> string" where
  "unknownCommandMessage env cmd =
     ''Unknown worker broadcast channel command: '' @ [CHR 0x27] @ commandText env cmd @ [CHR 0x27]"

text \<open>
  \<open>commandHandler\<close>. The first component is the request payload object after the call:
  the caller still holds it and puts it into a failure response.
\<close>

definition commandHandler ::
  "collaborators \<Rightarrow> BroadcastChannelProcedureName \<Rightarrow> jobject \<Rightarrow> jobject \<times> jobject option effect" where
  "commandHandler env cmd payload =
     (case commandHandlers env cmd of
        Some handler \<Rightarrow>
          (let cleaned = cleanRequestPayload cmd payload
           in (cleaned, and_then (emit (Invoke cmd cleaned)) (\<lambda>_. handler cleaned)))
      | None \<Rightarrow> (payload, throw (BaseError env (unknownCommandMessage env cmd))))"

definition stationHashId :: "collaborators \<Rightarrow> string option" where
  "stationHashId env = map_option ChargingStationInfo.hashId (stationInfo env)"

definition successPayload :: "collaborators \<Rightarrow> BroadcastChannelResponsePayload" where
  "successPayload env =
     \<lparr>hashId = stationHashId env, status = SUCCESS, command = None, requestPayload = None,
      commandResponse = None, errorMessage = None, errorStack = None, errorDetails = None\<rparr>"

definition commandResponseToResponsePayload ::
  "collaborators \<Rightarrow> BroadcastChannelProcedureName \<Rightarrow> jobject \<Rightarrow> jobject \<Rightarrow>
   BroadcastChannelResponsePayload" where
  "commandResponseToResponsePayload env cmd payload response =
     (let responseStatus = commandResponseToResponseStatus cmd response
      in if responseStatus = SUCCESS
         then \<lparr>hashId = stationHashId env, status = responseStatus, command = None,
               requestPayload = None, commandResponse = None, errorMessage = None,
               errorStack = None, errorDetails = None\<rparr>
         else \<lparr>hashId = stationHashId env, status = responseStatus, command = Some cmd,
               requestPayload = Some payload, commandResponse = Some response,
               errorMessage = None, errorStack = None, errorDetails = None\<rparr>)"

text \<open>\<open>hashIds.includes(hashId)\<close>; \<open>None\<close> where \<open>hashIds\<close> has no such method.\<close>

fun hashIds_includes :: "jvalue \<Rightarrow> string \<Rightarrow> bool option" where
  "hashIds_includes (JArr xs) s = Some (JStr s \<in> set xs)"
| "hashIds_includes (JStr t) s = Some (sublist s t)"
| "hashIds_includes _ s = None"

definition deprecatedHashIdLine :: string where
  "deprecatedHashIdLine =
     ''ChargingStationWorkerBroadcastChannel.requestHandler: 'hashId' field usage in PDU is deprecated, use 'hashIds' array instead''"

definition handleRequestErrorLine :: string where
  "handleRequestErrorLine =
     ''ChargingStationWorkerBroadcastChannel.requestHandler: Handle request error:''"

text \<open>The payload the promise chain has built when \<open>finally\<close> runs.\<close>

fun settle ::
  "collaborators \<Rightarrow> BroadcastChannelProcedureName \<Rightarrow> jobject \<Rightarrow> jobject option outcome \<Rightarrow>
   BroadcastChannelResponsePayload effect" where
  "settle env cmd payload (Returns None) = result (successPayload env)"
| "settle env cmd payload (Returns (Some response)) =
     (if isEmpty response then result (successPayload env)
      else result (commandResponseToResponsePayload env cmd payload response))"
| "settle env cmd payload (Throws error) =
     and_then (emit (Logger Error handleRequestErrorLine))
       (\<lambda>_. result
          \<lparr>hashId = stationHashId env, status = FAILURE, command = Some cmd,
           requestPayload = Some payload, commandResponse = None,
           errorMessage = Some (message error), errorStack = Some (stack error),
           errorDetails = Some (details error)\<rparr>)"

definition respond ::
  "collaborators \<Rightarrow> string \<Rightarrow> BroadcastChannelProcedureName \<Rightarrow> jobject \<Rightarrow> unit effect" where
  "respond env uuid cmd payload =
     (let handled = commandHandler env cmd payload
      in and_then (fst (snd handled), Returns ())
           (\<lambda>_. and_then (settle env cmd (fst handled) (snd (snd handled)))
                  (\<lambda>responsePayload. emit (SendResponse uuid responsePayload))))"

text \<open>
  \<open>requestHandler\<close>. Destructuring a two-element response as a request leaves
  \<open>requestPayload\<close> undefined, and reading \<open>hashIds\<close> from it throws; so does
  \<open>stationInfo!.hashId\<close> without station information.
\<close>

definition requestHandler :: "collaborators \<Rightarrow> MessageEvent \<Rightarrow> unit effect" where
  "requestHandler env messageEvent =
     (case validateMessageEvent env messageEvent of
        None \<Rightarrow> result ()
      | Some validatedMessageEvent \<Rightarrow>
          if isResponse env (data validatedMessageEvent) then result ()
          else
            (case data validatedMessageEvent of
               Response uuid responsePayload \<Rightarrow> throw (engineTypeError env)
             | Request uuid cmd payload \<Rightarrow>
                 and_then
                   (if nullish (get_prop payload ''hashIds'') then result False
                    else
                      (case stationInfo env of
                         None \<Rightarrow> throw (engineTypeError env)
                       | Some info \<Rightarrow>
                           (case hashIds_includes (get_prop payload ''hashIds'')
                                   (ChargingStationInfo.hashId info) of
                              None \<Rightarrow> throw (engineTypeError env)
                            | Some found \<Rightarrow> result (\<not> found))))
                   (\<lambda>notForThisStation.
                      if notForThisStation then result ()
                      else if \<not> nullish (get_prop payload ''hashId'')
                      then emit
                             (Logger Error deprecatedHashIdLine)
                      else respond env uuid cmd payload)))"

section \<open>Numbers and dates\<close>

text \<open>
  A JavaScript number is an IEEE 754 binary64 value. A finite one is kept as the real
  number it stands for; \<open>None\<close> stands for the infinities and NaN. \<open>to_double\<close> rounds a
  real to the nearest binary64 value, ties to the even significand: 53 bits above
  \<open>2 powr (- 1022)\<close>, steps of \<open>2 powr (- 1074)\<close> below, an infinity from \<open>2 powr 1024\<close> on.
\<close>

definition round_half_even :: "real \<Rightarrow> int" where
  "round_half_even y =
     (let n = \<lfloor>y\<rfloor>
      in if y - of_int n < 1 / 2 then n
         else if y - of_int n > 1 / 2 then n + 1
         else if even n then n else n + 1)"

definition binary64_exponent :: "real \<Rightarrow> int" where
  "binary64_exponent x = max (\<lfloor>log 2 \<bar>x\<bar>\<rfloor> - 52) (- 1074)"

definition to_double :: "real \<Rightarrow> real option" where
  "to_double x =
     (if x = 0 then Some 0
      else
        (let e = binary64_exponent x;
             r = of_int (round_half_even (x / 2 powr of_int e)) * 2 powr of_int e
         in if \<bar>r\<bar> < 2 powr 1024 then Some r else None))"

text \<open>\<open>a * b\<close>, \<open>a + b\<close> and \<open>a - b\<close> on numbers: the exact result, rounded.\<close>

fun js_times :: "real option \<Rightarrow> real option \<Rightarrow> real option" where
  "js_times (Some a) (Some b) = to_double (a * b)"
| "js_times _ _ = None"

fun js_plus :: "real option \<Rightarrow> real option \<Rightarrow> real option" where
  "js_plus (Some a) (Some b) = to_double (a + b)"
| "js_plus _ _ = None"

fun js_minus :: "real option \<Rightarrow> real option \<Rightarrow> real option" where
  "js_minus (Some a) (Some b) = to_double (a - b)"
| "js_minus _ _ = None"

text \<open>
  A \<open>Date\<close> holds a whole number of milliseconds, or is invalid. \<open>new Date(value)\<close> cuts
  the fraction of the value off (towards zero) and gives an invalid date for a value that
  is not finite or lies beyond 8.64e15 ms; \<open>getTime()\<close> of an invalid date is NaN.
\<close>

datatype Date = Date int | InvalidDate

definition new_Date :: "real option \<Rightarrow> Date" where
  "new_Date v =
     (case v of
        None \<Rightarrow> InvalidDate
      | Some x \<Rightarrow>
          if \<bar>x\<bar> \<le> 8640000000000000 then Date (if 0 \<le> x then \<lfloor>x\<rfloor> else \<lceil>x\<rceil>)
          else InvalidDate)"

fun getTime :: "Date \<Rightarrow> real option" where
  "getTime (Date t) = Some (of_int t)"
| "getTime InvalidDate = None"

section \<open>The automatic transaction generator\<close>

text \<open>
  The fields of the generator. A date field is \<open>None\<close> until it is first assigned.
\<close>

record ATG =
  started :: bool
  connectorsStartStatus :: "nat \<Rightarrow> bool option"
  startDate :: "Date option"
  lastRunDate :: "Date option"
  stopDate :: "Date option"

text \<open>Where a connector loop is suspended between two steps.\<close>

datatype suspension = AwaitingService | Sleeping

record connector_loop =
  connectorId :: nat
  skippedTransactions :: nat
  skippedTransactionsTotal :: nat
  suspended_at :: suspension

text \<open>
  The generator together with what the event loop holds for it: the \<open>setImmediate\<close>
  callbacks not yet run (oldest first), the connector loops suspended in an \<open>await\<close>, and
  the trace of what has been done so far.
\<close>

record runtime =
  atg :: ATG
  immediates :: "nat list"
  loops :: "connector_loop list"
  trace :: "event list"

text \<open>Modelled from the spec: \<open>Constants.CHARGING_STATION_ATG_DEFAULT_STOP_AFTER_HOURS\<close>, 0.25.\<close>

definition CHARGING_STATION_ATG_DEFAULT_STOP_AFTER_HOURS :: real where
  "CHARGING_STATION_ATG_DEFAULT_STOP_AFTER_HOURS = 0.25"

text \<open>
  \<open>logPrefix\<close> reads \<open>stationInfo.chargingStationId\<close> and throws where the station has
  no \<open>stationInfo\<close>. Every line the generator logs starts with it, so the line is logged
  only if the prefix could be built.
\<close>

definition logPrefix :: "collaborators \<Rightarrow> unit effect" where
  "logPrefix env =
     (case stationInfo env of None \<Rightarrow> throw (engineTypeError env) | Some info \<Rightarrow> result ())"

definition logger :: "collaborators \<Rightarrow> log_level \<Rightarrow> string \<Rightarrow> unit effect" where
  "logger env level line = and_then (logPrefix env) (\<lambda>_. emit (Logger level line))"

text \<open>
  A call on \<open>chargingStation.ocppRequestService\<close> as the generator makes it: the station
  of the generator may not have the service yet, and the call then throws.
\<close>

definition requestService :: "collaborators \<Rightarrow> ocpp_call \<Rightarrow> jobject option effect" where
  "requestService env c =
     (if ocppRequestService env then ocpp env c else throw (engineTypeError env))"

text \<open>What a stretch of code does is added to the trace; whether it threw is kept.\<close>

definition perform :: "'a effect \<Rightarrow> runtime \<Rightarrow> runtime \<times> 'a outcome" where
  "perform m rt = (rt\<lparr>trace := trace rt @ fst m\<rparr>, snd m)"

text \<open>
  Inside a connector loop: go on with the rest, given what the call returned, unless the
  call threw. A throw ends the loop there, with the fields as they are (the rejection is
  swallowed by the \<open>catch\<close> in \<open>startConnectors\<close>).
\<close>

definition unless_thrown ::
  "runtime \<times> 'a outcome \<Rightarrow> ('a \<Rightarrow> runtime \<Rightarrow> runtime) \<Rightarrow> runtime" where
  "unless_thrown r rest = (case snd r of Throws e \<Rightarrow> fst r | Returns a \<Rightarrow> rest a (fst r))"

definition stopConnector :: "nat \<Rightarrow> ATG \<Rightarrow> ATG" where
  "stopConnector c a = a\<lparr>connectorsStartStatus := (connectorsStartStatus a)(c \<mapsto> False)\<rparr>"

definition stopConnectors :: "collaborators \<Rightarrow> ATG \<Rightarrow> ATG" where
  "stopConnectors env a = foldl (\<lambda>a c. if c > 0 then stopConnector c a else a) a (connectors env)"

text \<open>\<open>startConnectors\<close> only queues one callback for every connector id above 0.\<close>

definition startConnectors :: "collaborators \<Rightarrow> runtime \<Rightarrow> runtime" where
  "startConnectors env rt =
     foldl (\<lambda>rt c. if c > 0 then rt\<lparr>immediates := immediates rt @ [c]\<rparr> else rt) rt (connectors env)"

text \<open>The constructor.\<close>

definition new_ATG :: "collaborators \<Rightarrow> runtime" where
  "new_ATG env =
     \<lparr>atg =
        (stopConnectors env
           \<lparr>started = False, connectorsStartStatus = Map.empty, startDate = None,
            lastRunDate = None, stopDate = None\<rparr>)\<lparr>started := False\<rparr>,
      immediates = [], loops = [], trace = []\<rparr>"

text \<open>\<open>stopAfterHours\<close> as \<open>start\<close> reads it, through two optional links and a default.\<close>

definition configuredStopAfterHours :: "collaborators \<Rightarrow> real" where
  "configuredStopAfterHours env =
     (case stationInfo env of
        None \<Rightarrow> CHARGING_STATION_ATG_DEFAULT_STOP_AFTER_HOURS
      | Some info \<Rightarrow>
          (case AutomaticTransactionGenerator info of
             None \<Rightarrow> CHARGING_STATION_ATG_DEFAULT_STOP_AFTER_HOURS
           | Some configuration \<Rightarrow>
               (case stopAfterHours configuration of
                  None \<Rightarrow> CHARGING_STATION_ATG_DEFAULT_STOP_AFTER_HOURS
                | Some hours \<Rightarrow> hours)))"

text \<open>
  \<open>previousRunDuration\<close>: both date fields are objects once assigned, hence truthy,
  valid or not.
\<close>

definition previousRunDuration :: "ATG \<Rightarrow> real option" where
  "previousRunDuration a =
     (case startDate a of
        None \<Rightarrow> Some 0
      | Some previousStart \<Rightarrow>
          (case lastRunDate a of
             None \<Rightarrow> Some 0
           | Some previousLastRun \<Rightarrow> js_minus (getTime previousLastRun) (getTime previousStart)))"

text \<open>
  \<open>start()\<close> and \<open>stop()\<close> give the generator as they leave it and say whether they
  threw. \<open>start()\<close> logs its last line after it has set all its fields.
\<close>

definition start :: "collaborators \<Rightarrow> runtime \<Rightarrow> runtime \<times> unit outcome" where
  "start env rt =
     (if started (atg rt)
      then perform (logger env Error ''trying to start while already started'') rt
      else
        (let previous = previousRunDuration (atg rt);
             begun = Date (now env);
             dated =
               (atg rt)
                 \<lparr>startDate := Some begun, lastRunDate := Some begun,
                  stopDate :=
                    Some (new_Date
                           (js_minus
                              (js_plus (getTime begun)
                                 (js_times
                                    (js_times (Some (configuredStopAfterHours env)) (Some 3600))
                                    (Some 1000)))
                              previous))\<rparr>;
             queued = startConnectors env (rt\<lparr>atg := dated\<rparr>)
         in perform (logger env Info ''started and will run for'')
              (queued\<lparr>atg := (atg queued)\<lparr>started := True\<rparr>\<rparr>)))"

definition stop :: "collaborators \<Rightarrow> runtime \<Rightarrow> runtime \<times> unit outcome" where
  "stop env rt =
     (if \<not> started (atg rt)
      then perform (logger env Error ''trying to stop while not started'') rt
      else
        perform (logger env Info ''over and lasted for. Stopping all transactions'')
          (rt\<lparr>atg := (stopConnectors env (atg rt))\<lparr>started := False\<rparr>\<rparr>))"

text \<open>\<open>response?.idTagInfo?.status\<close>.\<close>

fun idTagInfoStatus :: "jobject option \<Rightarrow> jvalue" where
  "idTagInfoStatus None = JUndefined"
| "idTagInfoStatus (Some response) = opt_prop (get_prop response ''idTagInfo'') ''status''"

definition startTransaction :: "collaborators \<Rightarrow> nat \<Rightarrow> jobject option effect" where
  "startTransaction env c =
     (let measureId = ''StartTransaction with ATG'';
          beginId = beginMeasure env measureId
      in and_then (emit (BeginMeasure measureId))
           (\<lambda>_. if hasAuthorizedTags env
                 then
                   (let idTag = getRandomIdTag env
                    in if getAutomaticTransactionGeneratorRequireAuthorize env
                       then
                         and_then (requestService env (SendAuthorize c idTag))
                           (\<lambda>authorizeResponse.
                              if idTagInfoStatus authorizeResponse = AuthorizationStatus_ACCEPTED
                              then
                                and_then (logger env Info (''start transaction for idTag '' @ idTag))
                                  (\<lambda>_. and_then
                                         (requestService env (SendStartTransaction c (Some idTag)))
                                         (\<lambda>startResponse.
                                            and_then (emit (EndMeasure measureId beginId))
                                              (\<lambda>_. result startResponse)))
                              else
                                and_then (emit (EndMeasure measureId beginId))
                                  (\<lambda>_. result authorizeResponse))
                       else
                         and_then (logger env Info (''start transaction for idTag '' @ idTag))
                           (\<lambda>_. and_then (requestService env (SendStartTransaction c (Some idTag)))
                                  (\<lambda>startResponse.
                                     and_then (emit (EndMeasure measureId beginId))
                                       (\<lambda>_. result startResponse))))
                 else
                   and_then (logger env Info ''start transaction without an idTag'')
                     (\<lambda>_. and_then (requestService env (SendStartTransaction c None))
                            (\<lambda>startResponse.
                               and_then (emit (EndMeasure measureId beginId))
                                 (\<lambda>_. result startResponse)))))"

text \<open>A number that may be \<open>undefined\<close>, as a value.\<close>

fun number :: "int option \<Rightarrow> jvalue" where
  "number None = JUndefined"
| "number (Some n) = JNum n"

text \<open>
  \<open>getConnector(connectorId)\<close> when its \<open>transactionStarted\<close> is true, \<open>None\<close> when there
  is no such connector or no transaction on it.
\<close>

definition connectorInTransaction :: "collaborators \<Rightarrow> nat \<Rightarrow> Connector option" where
  "connectorInTransaction env c =
     (case getConnector env c of
        None \<Rightarrow> None
      | Some connector \<Rightarrow> if transactionStarted connector = Some True then Some connector else None)"

definition stopTransaction ::
  "collaborators \<Rightarrow> nat \<Rightarrow> StopTransactionReason \<Rightarrow> jobject option effect" where
  "stopTransaction env c reason =
     (let measureId = ''StopTransaction with ATG'';
          beginId = beginMeasure env measureId
      in and_then (emit (BeginMeasure measureId))
           (\<lambda>_. and_then
                   (case connectorInTransaction env c of
                      Some connector \<Rightarrow>
                        (let tid = number (transactionId connector)
                         in requestService env
                              (SendStopTransaction tid
                                 (getEnergyActiveImportRegisterByTransactionId env tid None)
                                 (getTransactionIdTag env tid) reason))
                    | None \<Rightarrow>
                        and_then (logger env Warn ''trying to stop a not started transaction'')
                          (\<lambda>_. result None))
                   (\<lambda>stopResponse.
                      and_then (emit (EndMeasure measureId beginId)) (\<lambda>_. result stopResponse))))"

subsection \<open>The connector loop, one suspension at a time\<close>

text \<open>
  Between two \<open>await\<close>s a loop runs alone. From the draw of \<open>secureRandom\<close> to the
  assignment of \<open>lastRunDate\<close> an iteration waits several times but touches no field of
  the generator, so it is one step here; it gives the loop's counters, or throws.
  \<open>transactionId.toString()\<close> throws where the connector or its transaction id is missing.
\<close>

definition transactionIdText :: "collaborators \<Rightarrow> nat \<Rightarrow> unit effect" where
  "transactionIdText env c =
     (case getConnector env c of
        None \<Rightarrow> throw (engineTypeError env)
      | Some connector \<Rightarrow>
          (case transactionId connector of
             None \<Rightarrow> throw (engineTypeError env)
           | Some tid \<Rightarrow> result ()))"

definition configuration :: "collaborators \<Rightarrow> AutomaticTransactionGeneratorConfiguration option" where
  "configuration env =
     (case stationInfo env of None \<Rightarrow> None | Some info \<Rightarrow> AutomaticTransactionGenerator info)"

definition transactionCycle :: "collaborators \<Rightarrow> connector_loop \<Rightarrow> connector_loop effect" where
  "transactionCycle env l =
     (case configuration env of
        None \<Rightarrow> throw (engineTypeError env)
      | Some conf \<Rightarrow>
          if secureRandom env < probabilityOfStart conf
          then
            and_then (startTransaction env (connectorId l))
              (\<lambda>startResponse.
                 if idTagInfoStatus startResponse \<noteq> AuthorizationStatus_ACCEPTED
                 then
                   and_then (logger env Warn ''transaction rejected'')
                     (\<lambda>_. result (l\<lparr>skippedTransactions := 0\<rparr>))
                 else
                   and_then (logPrefix env)
                     (\<lambda>_. and_then (transactionIdText env (connectorId l))
                        (\<lambda>_. and_then (emit (Logger Info ''transaction will stop in''))
                           (\<lambda>_. and_then (logPrefix env)
                              (\<lambda>_. and_then (transactionIdText env (connectorId l))
                                 (\<lambda>_. and_then (emit (Logger Info ''stop transaction''))
                                    (\<lambda>_. and_then (stopTransaction env (connectorId l) NONE)
                                       (\<lambda>_. result (l\<lparr>skippedTransactions := 0\<rparr>)))))))))
          else
            and_then (logger env Info ''skipped transaction'')
              (\<lambda>_. result
                     (l\<lparr>skippedTransactions := skippedTransactions l + 1,
                        skippedTransactionsTotal := skippedTransactionsTotal l + 1\<rparr>)))"

text \<open>After the loop: the closing \<open>stopTransaction\<close>, then the last line of the log.\<close>

definition leaveLoop :: "collaborators \<Rightarrow> nat \<Rightarrow> runtime \<Rightarrow> runtime" where
  "leaveLoop env c rt =
     fst (perform
            (and_then (stopTransaction env c NONE)
               (\<lambda>_. logger env Info ''stopped on connector''))
            rt)"

text \<open>
  The draw of the delay reads the configuration and throws without one. With one, the
  loop logs the delay and sleeps.
\<close>

definition sleepBetweenTransactions :: "collaborators \<Rightarrow> connector_loop \<Rightarrow> runtime \<Rightarrow> runtime" where
  "sleepBetweenTransactions env l rt =
     (case configuration env of
        None \<Rightarrow> rt
      | Some conf \<Rightarrow>
          unless_thrown (perform (logger env Info ''waiting for'') rt)
            (\<lambda>_ rt. rt\<lparr>loops := loops rt @ [l\<lparr>suspended_at := Sleeping\<rparr>]\<rparr>))"

text \<open>
  \<open>new Date() > this.stopDate\<close>: false while \<open>stopDate\<close> is unassigned or invalid.
\<close>

fun deadlinePassed :: "int \<Rightarrow> Date option \<Rightarrow> bool" where
  "deadlinePassed present (Some (Date deadline)) = (present > deadline)"
| "deadlinePassed present _ = False"

text \<open>
  One pass from the test of the \<open>while\<close> condition to the next suspension or to the end
  of the loop, with the four guards in the order of the source.
\<close>

definition iteration :: "collaborators \<Rightarrow> connector_loop \<Rightarrow> runtime \<Rightarrow> runtime" where
  "iteration env l rt =
     (let c = connectorId l
      in if connectorsStartStatus (atg rt) c \<noteq> Some True then leaveLoop env c rt
         else if deadlinePassed (now env) (stopDate (atg rt))
         then unless_thrown (stop env rt) (\<lambda>_. leaveLoop env c)
         else if \<not> isRegistered env
         then unless_thrown
                (perform
                   (logger env Error
                      ''Entered in transaction loop while the charging station is not registered'')
                   rt)
                (\<lambda>_. leaveLoop env c)
         else if \<not> isChargingStationAvailable env
         then unless_thrown
                (perform
                   (logger env Info
                      ''Entered in transaction loop while the charging station is unavailable'')
                   rt)
                (\<lambda>_ rt. unless_thrown (stop env rt) (\<lambda>_. leaveLoop env c))
         else if \<not> isConnectorAvailable env c
         then unless_thrown
                (perform
                   (logger env Info
                      ''Entered in transaction loop while the connector is unavailable, stop it'')
                   rt)
                (\<lambda>_. leaveLoop env c)
         else if \<not> ocppRequestService env
         then unless_thrown
                (perform
                   (logger env Info
                      ''Transaction loop waiting for charging station service to be initialized'')
                   rt)
                (\<lambda>_ rt. rt\<lparr>loops := loops rt @ [l\<lparr>suspended_at := AwaitingService\<rparr>]\<rparr>)
         else sleepBetweenTransactions env l rt)"

text \<open>
  \<open>startConnector\<close>, from its call by the event loop to its first suspension. Its first
  line is a log line; the flag is raised after it.
\<close>

definition startConnector :: "collaborators \<Rightarrow> nat \<Rightarrow> runtime \<Rightarrow> runtime" where
  "startConnector env c rt =
     unless_thrown (perform (logger env Info ''started on connector'') rt)
       (\<lambda>_ rt. iteration env
               \<lparr>connectorId = c, skippedTransactions = 0, skippedTransactionsTotal = 0,
                suspended_at = Sleeping\<rparr>
               (rt\<lparr>atg := (atg rt)
                      \<lparr>connectorsStartStatus := (connectorsStartStatus (atg rt))(c \<mapsto> True)\<rparr>\<rparr>))"

text \<open>The event loop runs the oldest \<open>setImmediate\<close> callback.\<close>

definition runImmediate :: "collaborators \<Rightarrow> runtime \<Rightarrow> runtime" where
  "runImmediate env rt =
     (case immediates rt of
        [] \<Rightarrow> rt
      | c # rest \<Rightarrow> startConnector env c (rt\<lparr>immediates := rest\<rparr>))"

text \<open>
  The \<open>i\<close>-th suspended loop wakes up. One that polls for the request service sleeps
  again until the service is there. One that slept between two transactions runs the rest
  of its iteration, assigns \<open>lastRunDate\<close> and goes round; if the iteration throws, the
  loop is over with nothing else done.
\<close>

definition resume :: "collaborators \<Rightarrow> nat \<Rightarrow> runtime \<Rightarrow> runtime" where
  "resume env i rt =
     (if i < length (loops rt)
      then
        (let l = loops rt ! i;
             others = rt\<lparr>loops := take i (loops rt) @ drop (Suc i) (loops rt)\<rparr>
         in case suspended_at l of
              AwaitingService \<Rightarrow>
                if ocppRequestService env then sleepBetweenTransactions env l others else rt
            | Sleeping \<Rightarrow>
                unless_thrown (perform (transactionCycle env l) others)
                  (\<lambda>l' rt. iteration env l'
                             (rt\<lparr>atg := (atg rt)\<lparr>lastRunDate := Some (Date (now env))\<rparr>\<rparr>)))
      else rt)"

text \<open>
  What can happen to a generator: a call of \<open>start()\<close> or of \<open>stop()\<close> from outside, a
  queued callback run by the event loop, or a suspended loop waking up. A schedule gives,
  for each thing that happens, the collaborators as they stand at that moment. A call
  from outside that throws leaves the generator as it is at the throw.
\<close>

datatype action = Start | Stop | Immediate | Resume nat

fun step :: "collaborators \<Rightarrow> action \<Rightarrow> runtime \<Rightarrow> runtime" where
  "step env Start rt = fst (start env rt)"
| "step env Stop rt = fst (stop env rt)"
| "step env Immediate rt = runImmediate env rt"
| "step env (Resume i) rt = resume env i rt"

fun run :: "(collaborators \<times> action) list \<Rightarrow> runtime \<Rightarrow> runtime" where
  "run [] rt = rt"
| "run ((env, a) # schedule) rt = run schedule (step env a rt)"


section \<open>Reading a trace\<close>

text \<open>
  The targeting fields as the specification lists them: \<open>hashId\<close> and \<open>hashIds\<close> for
  every command, \<open>connectorIds\<close> too unless the command starts or stops the generator.
\<close>

definition spec_targeting_fields :: "BroadcastChannelProcedureName \<Rightarrow> string set" where
  "spec_targeting_fields cmd =
     (if cmd = START_AUTOMATIC_TRANSACTION_GENERATOR \<or> cmd = STOP_AUTOMATIC_TRANSACTION_GENERATOR
      then {''hashId'', ''hashIds''}
      else {''hashId'', ''hashIds'', ''connectorIds''})"

fun is_response :: "event \<Rightarrow> bool" where
  "is_response (SendResponse uuid responsePayload) = True"
| "is_response _ = False"

fun ocpp_calls :: "event list \<Rightarrow> ocpp_call list" where
  "ocpp_calls [] = []"
| "ocpp_calls (OcppCall c # evs) = c # ocpp_calls evs"
| "ocpp_calls (ev # evs) = ocpp_calls evs"

section \<open>A station to run the code on\<close>

text \<open>
  Station \<open>A\<close> with connectors 0, 1 and 2 and a transaction on connector 1. Its central
  system answers a heartbeat with the time, rejects a boot notification, lets an
  authorisation time out, blocks the tag \<open>T1\<close> and accepts every transaction.
\<close>

definition accepted_idTagInfo :: "string \<times> jvalue" where
  "accepted_idTagInfo = (''idTagInfo'', JObj [(''status'', AuthorizationStatus_ACCEPTED)])"

fun example_central_system :: "ocpp_call \<Rightarrow> jobject option outcome" where
  "example_central_system (RequestHandler RequestCommand.HEARTBEAT payload params) =
     Returns (Some [(''currentTime'', JStr ''2024-06-01T00:00:00Z'')])"
| "example_central_system (RequestHandler RequestCommand.BOOT_NOTIFICATION payload params) =
     Returns (Some [(''status'', JStr ''Rejected''), (''interval'', JNum 60)])"
| "example_central_system (RequestHandler RequestCommand.AUTHORIZE payload params) =
     Throws \<lparr>message = ''timeout'', stack = JUndefined,
             details = JObj [(''code'', JStr ''NetworkError'')]\<rparr>"
| "example_central_system (RequestHandler rc payload params) = Returns (Some [])"
| "example_central_system (SendAuthorize c idTag) =
     Returns (Some [(''idTagInfo'', JObj [(''status'', JStr ''Blocked'')])])"
| "example_central_system (SendStartTransaction c idTag) =
     Returns (Some [accepted_idTagInfo, (''transactionId'', JNum 7)])"
| "example_central_system (SendStopTransaction tid meterStop idTag reason) =
     Returns (Some [accepted_idTagInfo])"

definition example_station :: collaborators where
  "example_station =
     \<lparr>stationInfo =
        Some \<lparr>ChargingStationInfo.hashId = ''A'',
              AutomaticTransactionGenerator =
                Some \<lparr>stopAfterHours = None, probabilityOfStart = 1\<rparr>\<rparr>,
      bootNotificationRequest = JObj [(''chargePointVendor'', JStr ''V'')],
      connectors = [0, 1, 2],
      station_does = (\<lambda>c. Returns ()),
      ocpp_answers = example_central_system,
      getEnergyActiveImportRegisterByTransactionId = (\<lambda>tid rounded. JNum 1500),
      getConnectorStatus = (\<lambda>c. None),
      getConnector =
        (\<lambda>c. if c = 1 then Some \<lparr>transactionStarted = Some True, transactionId = Some 7\<rparr>
             else if c = 2 then Some \<lparr>transactionStarted = Some False, transactionId = None\<rparr>
             else None),
      getTransactionIdTag = (\<lambda>tid. ''T1''),
      hasAuthorizedTags = True,
      getRandomIdTag = ''T1'',
      getAutomaticTransactionGeneratorRequireAuthorize = True,
      getConfigurationKey = (\<lambda>k. None),
      buildMeterValue = (\<lambda>c tid interval. JObj []),
      convertToInt = (\<lambda>v. Returns 0),
      beginMeasure = (\<lambda>measureId. ''begin'' @ measureId),
      now = 0,
      isRegistered = True,
      isChargingStationAvailable = True,
      isConnectorAvailable = (\<lambda>c. True),
      ocppRequestService = True,
      secureRandom = 0,
      validateMessageEvent = Some,
      isResponse = (\<lambda>d. case d of Request uuid cmd payload \<Rightarrow> False | Response uuid r \<Rightarrow> True),
      procedureText = (\<lambda>cmd. []),
      errorStackOf = (\<lambda>text. JUndefined),
      engineTypeError = \<lparr>message = ''TypeError'', stack = JUndefined, details = JUndefined\<rparr>\<rparr>"






section \<open>The response classifier: results\<close>

text \<open>
  C4. The classifier returns the verdict of the table for every command and every
  response: for \<open>START_TRANSACTION\<close>, \<open>STOP_TRANSACTION\<close> and \<open>AUTHORIZE\<close> it is \<open>SUCCESS\<close>
  exactly when \<open>response.idTagInfo.status\<close> is the authorisation status \<open>ACCEPTED\<close>; for
  \<open>BOOT_NOTIFICATION\<close> exactly when \<open>response.status\<close> is the registration status
  \<open>ACCEPTED\<close>; for \<open>DATA_TRANSFER\<close> exactly when \<open>response.status\<close> is the data-transfer
  status \<open>ACCEPTED\<close>; for \<open>STATUS_NOTIFICATION\<close> and \<open>METER_VALUES\<close> exactly when the
  response is empty; for \<open>HEARTBEAT\<close> exactly when the response has a \<open>currentTime\<close>
  field; for every other command it is \<open>FAILURE\<close>.
\<close>

theorem classifier_follows_table:
  "(commandResponseToResponseStatus START_TRANSACTION response = SUCCESS
      \<longleftrightarrow> opt_prop (get_prop response ''idTagInfo'') ''status'' = AuthorizationStatus_ACCEPTED) \<and>
   (commandResponseToResponseStatus STOP_TRANSACTION response = SUCCESS
      \<longleftrightarrow> opt_prop (get_prop response ''idTagInfo'') ''status'' = AuthorizationStatus_ACCEPTED) \<and>
   (commandResponseToResponseStatus AUTHORIZE response = SUCCESS
      \<longleftrightarrow> opt_prop (get_prop response ''idTagInfo'') ''status'' = AuthorizationStatus_ACCEPTED) \<and>
   (commandResponseToResponseStatus BOOT_NOTIFICATION response = SUCCESS
      \<longleftrightarrow> get_prop response ''status'' = RegistrationStatusEnumType_ACCEPTED) \<and>
   (commandResponseToResponseStatus DATA_TRANSFER response = SUCCESS
      \<longleftrightarrow> get_prop response ''status'' = DataTransferStatus_ACCEPTED) \<and>
   (commandResponseToResponseStatus STATUS_NOTIFICATION response = SUCCESS \<longleftrightarrow> isEmpty response) \<and>
   (commandResponseToResponseStatus METER_VALUES response = SUCCESS \<longleftrightarrow> isEmpty response) \<and>
   (commandResponseToResponseStatus HEARTBEAT response = SUCCESS
      \<longleftrightarrow> has_prop response ''currentTime'') \<and>
   (cmd \<notin> {START_TRANSACTION, STOP_TRANSACTION, AUTHORIZE, BOOT_NOTIFICATION, DATA_TRANSFER,
             STATUS_NOTIFICATION, METER_VALUES, HEARTBEAT}
      \<longrightarrow> commandResponseToResponseStatus cmd response = FAILURE)"
  by (cases cmd) simp_all

theorem classifier_follows_table_witness:
  "FIRMWARE_STATUS_NOTIFICATION \<notin>
     {START_TRANSACTION, STOP_TRANSACTION, AUTHORIZE, BOOT_NOTIFICATION, DATA_TRANSFER,
      STATUS_NOTIFICATION, METER_VALUES, HEARTBEAT} \<and>
   commandResponseToResponseStatus FIRMWARE_STATUS_NOTIFICATION [] = FAILURE \<and>
   commandResponseToResponseStatus HEARTBEAT [(''currentTime'', JStr ''2024-06-01T00:00:00Z'')] = SUCCESS \<and>
   commandResponseToResponseStatus HEARTBEAT [] = FAILURE \<and>
   commandResponseToResponseStatus METER_VALUES [(''anyField'', JNum 1)] = FAILURE \<and>
   commandResponseToResponseStatus BOOT_NOTIFICATION [(''status'', JStr ''Rejected'')] = FAILURE \<and>
   commandResponseToResponseStatus AUTHORIZE [accepted_idTagInfo] = SUCCESS"
  using classifier_follows_table [of "[]" FIRMWARE_STATUS_NOTIFICATION]
    classifier_follows_table [of "[(''currentTime'', JStr ''2024-06-01T00:00:00Z'')]" HEARTBEAT]
  by (simp add: has_prop_def isEmpty_def get_prop_def accepted_idTagInfo_def
        AuthorizationStatus_ACCEPTED_def RegistrationStatusEnumType_ACCEPTED_def)

section \<open>The command dispatcher: results\<close>

text \<open>A handler of the table calls the station or the request service and publishes nothing.\<close>

lemma handler_publishes_nothing:
  "commandHandlers env cmd = Some handler \<Longrightarrow> filter is_response (fst (handler payload)) = []"
  by (cases cmd)
     (auto simp: lifecycle_def forward_def ocpp_def station_def and_then_def result_def throw_def
        meterValuesHandler_def Let_def
      split: outcome.splits option.splits)

lemma commandHandler_publishes_nothing:
  "filter is_response (fst (snd (commandHandler env cmd payload))) = []"
  by (cases "commandHandlers env cmd")
     (auto simp: commandHandler_def throw_def and_then_def emit_def Let_def
        handler_publishes_nothing
      split: outcome.splits)

text \<open>Whatever the handler did, the chain ends with a payload, having published nothing yet.\<close>

lemma settle_builds_payload:
  "\<exists>responsePayload.
     snd (settle env cmd payload out) = Returns responsePayload \<and>
     filter is_response (fst (settle env cmd payload out)) = [] \<and>
     (case out of
        Throws error \<Rightarrow>
          status responsePayload = FAILURE \<and> errorMessage responsePayload = Some (message error)
      | Returns None \<Rightarrow> responsePayload = successPayload env
      | Returns (Some response) \<Rightarrow>
          if isEmpty response \<or> commandResponseToResponseStatus cmd response = SUCCESS
          then status responsePayload = SUCCESS \<and> commandResponse responsePayload = None
          else status responsePayload = FAILURE \<and>
               commandResponse responsePayload = Some response)"
proof (cases out)
  case (Returns r)
  then show ?thesis
    by (cases r)
       (auto simp: result_def successPayload_def commandResponseToResponsePayload_def Let_def
          intro: ResponseStatus.exhaust)
next
  case (Throws error)
  then show ?thesis
    by (simp add: result_def and_then_def emit_def)
qed

text \<open>A request that passes the targeting checks goes to the promise chain.\<close>

lemma accepted_request_is_answered:
  assumes "validateMessageEvent env messageEvent = Some validated"
    and "\<not> isResponse env (data validated)"
    and "data validated = Request uuid cmd payload"
    and "nullish (get_prop payload ''hashIds'') \<or>
         (\<exists>xs info. get_prop payload ''hashIds'' = JArr xs \<and> stationInfo env = Some info \<and>
            JStr (ChargingStationInfo.hashId info) \<in> set xs)"
    and "nullish (get_prop payload ''hashId'')"
  shows "requestHandler env messageEvent = respond env uuid cmd payload"
  using assms by (auto simp: requestHandler_def and_then_def result_def)

text \<open>
  C1. For every request envelope that passes the targeting checks (the message is valid,
  is not a response, its \<open>hashIds\<close> is absent or holds this station's \<open>hashId\<close>, its
  legacy \<open>hashId\<close> is absent), the dispatcher publishes exactly one response envelope,
  with the uuid of the request: a success payload when the handler returns nothing, an
  empty response or a response the classifier accepts, a failure payload with the command
  response when the classifier rejects it, and a failure payload with the error message
  when the handler throws.
\<close>

theorem one_response_per_accepted_request:
  assumes "validateMessageEvent env messageEvent = Some validated"
    and "\<not> isResponse env (data validated)"
    and "data validated = Request uuid cmd payload"
    and "nullish (get_prop payload ''hashIds'') \<or>
         (\<exists>xs info. get_prop payload ''hashIds'' = JArr xs \<and> stationInfo env = Some info \<and>
            JStr (ChargingStationInfo.hashId info) \<in> set xs)"
    and "nullish (get_prop payload ''hashId'')"
  shows "\<exists>responsePayload.
           filter is_response (fst (requestHandler env messageEvent)) =
             [SendResponse uuid responsePayload] \<and>
           snd (requestHandler env messageEvent) = Returns () \<and>
           (case snd (snd (commandHandler env cmd payload)) of
              Throws error \<Rightarrow>
                status responsePayload = FAILURE \<and>
                errorMessage responsePayload = Some (message error)
            | Returns None \<Rightarrow> responsePayload = successPayload env
            | Returns (Some response) \<Rightarrow>
                if isEmpty response \<or> commandResponseToResponseStatus cmd response = SUCCESS
                then status responsePayload = SUCCESS \<and> commandResponse responsePayload = None
                else status responsePayload = FAILURE \<and>
                     commandResponse responsePayload = Some response)"
proof -
  let ?handled = "commandHandler env cmd payload"
  obtain responsePayload where
    built: "snd (settle env cmd (fst ?handled) (snd (snd ?handled))) = Returns responsePayload"
    and quiet: "filter is_response (fst (settle env cmd (fst ?handled) (snd (snd ?handled)))) = []"
    and shape: "case snd (snd ?handled) of
        Throws error \<Rightarrow>
          status responsePayload = FAILURE \<and> errorMessage responsePayload = Some (message error)
      | Returns None \<Rightarrow> responsePayload = successPayload env
      | Returns (Some response) \<Rightarrow>
          if isEmpty response \<or> commandResponseToResponseStatus cmd response = SUCCESS
          then status responsePayload = SUCCESS \<and> commandResponse responsePayload = None
          else status responsePayload = FAILURE \<and>
               commandResponse responsePayload = Some response"
    using settle_builds_payload [of env cmd "fst ?handled" "snd (snd ?handled)"] by blast
  have "requestHandler env messageEvent = respond env uuid cmd payload"
    using assms by (rule accepted_request_is_answered)
  moreover have "filter is_response (fst (respond env uuid cmd payload)) =
      [SendResponse uuid responsePayload]"
    using built quiet commandHandler_publishes_nothing [of env cmd payload]
    by (simp add: respond_def Let_def and_then_def emit_def)
  moreover have "snd (respond env uuid cmd payload) = Returns ()"
    using built by (simp add: respond_def Let_def and_then_def emit_def)
  ultimately show ?thesis using shape by auto
qed

theorem one_response_per_accepted_request_witness:
  "validateMessageEvent example_station \<lparr>data = Request ''u-2'' BOOT_NOTIFICATION []\<rparr> =
     Some \<lparr>data = Request ''u-2'' BOOT_NOTIFICATION []\<rparr> \<and>
   \<not> isResponse example_station (Request ''u-2'' BOOT_NOTIFICATION []) \<and>
   nullish (get_prop [] ''hashIds'') \<and> nullish (get_prop [] ''hashId'') \<and>
   (\<exists>responsePayload.
      filter is_response
        (fst (requestHandler example_station \<lparr>data = Request ''u-2'' BOOT_NOTIFICATION []\<rparr>)) =
        [SendResponse ''u-2'' responsePayload] \<and>
      status responsePayload = FAILURE \<and>
      commandResponse responsePayload =
        Some [(''status'', JStr ''Rejected''), (''interval'', JNum 60)])"
proof -
  let ?ev = "\<lparr>data = Request ''u-2'' BOOT_NOTIFICATION []\<rparr>"
  have valid: "validateMessageEvent example_station ?ev = Some ?ev"
    by (simp add: example_station_def)
  have request: "\<not> isResponse example_station (data ?ev)"
    by (simp add: example_station_def)
  have shape: "data ?ev = Request ''u-2'' BOOT_NOTIFICATION []"
    by simp
  have targeted: "nullish (get_prop [] ''hashIds'') \<or>
      (\<exists>xs info. get_prop [] ''hashIds'' = JArr xs \<and> stationInfo example_station = Some info \<and>
         JStr (ChargingStationInfo.hashId info) \<in> set xs)"
    by (simp add: get_prop_def)
  have legacy: "nullish (get_prop [] ''hashId'')"
    by (simp add: get_prop_def)
  have handled: "snd (snd (commandHandler example_station BOOT_NOTIFICATION [])) =
      Returns (Some [(''status'', JStr ''Rejected''), (''interval'', JNum 60)])"
    by (simp add: commandHandler_def Let_def and_then_def emit_def ocpp_def example_station_def)
  show ?thesis
    using one_response_per_accepted_request [OF valid request shape targeted legacy]
      valid request legacy handled
    by (auto simp: isEmpty_def get_prop_def RegistrationStatusEnumType_ACCEPTED_def)
qed

text \<open>
  C5. A request envelope whose \<open>hashIds\<close> is a non-empty array that does not hold this
  station's \<open>hashId\<close>, and a request envelope that carries the legacy \<open>hashId\<close> field, reach
  no handler and get no response: the dispatcher does nothing at all, or only logs the
  deprecation error.
\<close>

theorem untargeted_request_is_dropped:
  assumes "validateMessageEvent env messageEvent = None \<or>
           validateMessageEvent env messageEvent = Some messageEvent"
    and "data messageEvent = Request uuid cmd payload"
    and "(\<exists>xs. get_prop payload ''hashIds'' = JArr xs \<and> xs \<noteq> [] \<and>
               (\<forall>h. stationHashId env = Some h \<longrightarrow> JStr h \<notin> set xs))
         \<or> \<not> nullish (get_prop payload ''hashId'')"
  shows "fst (requestHandler env messageEvent) = [] \<or>
         fst (requestHandler env messageEvent) = [Logger Error deprecatedHashIdLine]"
  using assms
  by (auto simp: requestHandler_def and_then_def result_def throw_def emit_def stationHashId_def
      split: option.splits outcome.splits if_splits)

theorem untargeted_request_is_dropped_witness:
  "validateMessageEvent example_station
     \<lparr>data = Request ''u-6'' HEARTBEAT [(''hashIds'', JArr [JStr ''B'', JStr ''C''])]\<rparr> =
     Some \<lparr>data = Request ''u-6'' HEARTBEAT [(''hashIds'', JArr [JStr ''B'', JStr ''C''])]\<rparr> \<and>
   stationHashId example_station = Some ''A'' \<and>
   fst (requestHandler example_station
          \<lparr>data = Request ''u-6'' HEARTBEAT [(''hashIds'', JArr [JStr ''B'', JStr ''C''])]\<rparr>) = [] \<and>
   \<not> nullish (get_prop [(''hashId'', JStr ''A'')] ''hashId'') \<and>
   fst (requestHandler example_station
          \<lparr>data = Request ''u-7'' HEARTBEAT [(''hashId'', JStr ''A'')]\<rparr>) =
     [Logger Error deprecatedHashIdLine]"
proof -
  let ?p = "[(''hashIds'', JArr [JStr ''B'', JStr ''C''])]"
  let ?ev = "\<lparr>data = Request ''u-6'' HEARTBEAT ?p\<rparr>"
  let ?q = "[(''hashId'', JStr ''A'')]"
  let ?legacy = "\<lparr>data = Request ''u-7'' HEARTBEAT ?q\<rparr>"
  have valid: "validateMessageEvent example_station ?ev = None \<or>
      validateMessageEvent example_station ?ev = Some ?ev"
    by (simp add: example_station_def)
  have valid': "validateMessageEvent example_station ?legacy = None \<or>
      validateMessageEvent example_station ?legacy = Some ?legacy"
    by (simp add: example_station_def)
  have self: "stationHashId example_station = Some ''A''"
    by (simp add: stationHashId_def example_station_def)
  have elsewhere: "(\<exists>xs. get_prop ?p ''hashIds'' = JArr xs \<and> xs \<noteq> [] \<and>
        (\<forall>h. stationHashId example_station = Some h \<longrightarrow> JStr h \<notin> set xs))
      \<or> \<not> nullish (get_prop ?p ''hashId'')"
    using self by (simp add: get_prop_def)
  have old: "(\<exists>xs. get_prop ?q ''hashIds'' = JArr xs \<and> xs \<noteq> [] \<and>
        (\<forall>h. stationHashId example_station = Some h \<longrightarrow> JStr h \<notin> set xs))
      \<or> \<not> nullish (get_prop ?q ''hashId'')"
    by (simp add: get_prop_def)
  have logs: "fst (requestHandler example_station ?legacy) \<noteq> []"
    by (simp add: requestHandler_def and_then_def result_def emit_def get_prop_def
          example_station_def)
  have silent: "fst (requestHandler example_station ?ev) \<noteq> [Logger Error deprecatedHashIdLine]"
    by (simp add: requestHandler_def and_then_def result_def emit_def get_prop_def
          example_station_def)
  show ?thesis
    using untargeted_request_is_dropped [OF valid _ elsewhere, of "''u-6''" HEARTBEAT]
      untargeted_request_is_dropped [OF valid' _ old, of "''u-7''" HEARTBEAT]
      self logs silent
    by (simp add: example_station_def get_prop_def)
qed

text \<open>
  C10. A request envelope whose \<open>hashIds\<close> is present but is the empty array is dropped:
  no handler is reached and no response is published, although the empty array names no
  other station.
\<close>

theorem empty_hashIds_is_dropped:
  assumes "validateMessageEvent env messageEvent = None \<or>
           validateMessageEvent env messageEvent = Some messageEvent"
    and "data messageEvent = Request uuid cmd payload"
    and "get_prop payload ''hashIds'' = JArr []"
  shows "fst (requestHandler env messageEvent) = []"
  using assms
  by (auto simp: requestHandler_def and_then_def result_def throw_def emit_def
      split: option.splits outcome.splits if_splits)

theorem empty_hashIds_is_dropped_witness:
  "validateMessageEvent example_station \<lparr>data = Request ''u-8'' HEARTBEAT [(''hashIds'', JArr [])]\<rparr> =
     Some \<lparr>data = Request ''u-8'' HEARTBEAT [(''hashIds'', JArr [])]\<rparr> \<and>
   get_prop [(''hashIds'', JArr [])] ''hashIds'' = JArr [] \<and>
   requestHandler example_station \<lparr>data = Request ''u-8'' HEARTBEAT [(''hashIds'', JArr [])]\<rparr> =
     ([], Returns ())"
proof -
  let ?ev = "\<lparr>data = Request ''u-8'' HEARTBEAT [(''hashIds'', JArr [])]\<rparr>"
  have valid: "validateMessageEvent example_station ?ev = None \<or>
      validateMessageEvent example_station ?ev = Some ?ev"
    by (simp add: example_station_def)
  have empty: "get_prop [(''hashIds'', JArr [])] ''hashIds'' = JArr []"
    by (simp add: get_prop_def)
  have returns: "snd (requestHandler example_station ?ev) = Returns ()"
    by (simp add: requestHandler_def and_then_def result_def get_prop_def example_station_def)
  show ?thesis
    using empty_hashIds_is_dropped [OF valid _ empty, of "''u-8''" HEARTBEAT] empty returns
    by (simp add: example_station_def prod_eq_iff)
qed

text \<open>The table has an entry for every member of the enumeration and for nothing else.\<close>

lemma no_handler_iff_other: "commandHandlers env cmd = None \<longleftrightarrow> (\<exists>s. cmd = OTHER s)"
  by (cases cmd) auto

text \<open>
  C8. For every accepted request envelope whose command has no entry in the handler
  table, the dispatcher publishes a \<open>FAILURE\<close> response with the uuid of the request, the
  command, the request payload as it came, and the error message
  \<open>Unknown worker broadcast channel command: '<command>'\<close>. It logs the error and does
  nothing else: no handler is called, nothing happens to the station.
\<close>

theorem unknown_command_is_answered_with_failure:
  assumes "validateMessageEvent env messageEvent = Some validated"
    and "\<not> isResponse env (data validated)"
    and "data validated = Request uuid cmd payload"
    and "nullish (get_prop payload ''hashIds'') \<or>
         (\<exists>xs info. get_prop payload ''hashIds'' = JArr xs \<and> stationInfo env = Some info \<and>
            JStr (ChargingStationInfo.hashId info) \<in> set xs)"
    and "nullish (get_prop payload ''hashId'')"
    and "commandHandlers env cmd = None"
  shows "\<exists>s. cmd = OTHER s \<and>
           requestHandler env messageEvent =
             ([Logger Error handleRequestErrorLine,
               SendResponse uuid
                 \<lparr>hashId = stationHashId env, status = FAILURE, command = Some cmd,
                  requestPayload = Some payload, commandResponse = None,
                  errorMessage =
                    Some (''Unknown worker broadcast channel command: '' @ [CHR 0x27] @ s @
                          [CHR 0x27]),
                  errorStack = Some (errorStackOf env (unknownCommandMessage env cmd)),
                  errorDetails = Some JUndefined\<rparr>],
              Returns ())"
proof -
  obtain s where other: "cmd = OTHER s"
    using assms(6) no_handler_iff_other by blast
  have "requestHandler env messageEvent = respond env uuid cmd payload"
    using assms(1-5) by (rule accepted_request_is_answered)
  then show ?thesis
    using other
    by (simp add: respond_def commandHandler_def Let_def and_then_def throw_def emit_def
          result_def BaseError_def unknownCommandMessage_def)
qed

theorem unknown_command_is_answered_with_failure_witness:
  "validateMessageEvent example_station \<lparr>data = Request ''u-9'' (OTHER ''reboot'') [(''force'', JBool True)]\<rparr> =
     Some \<lparr>data = Request ''u-9'' (OTHER ''reboot'') [(''force'', JBool True)]\<rparr> \<and>
   commandHandlers example_station (OTHER ''reboot'') = None \<and>
   requestHandler example_station \<lparr>data = Request ''u-9'' (OTHER ''reboot'') [(''force'', JBool True)]\<rparr> =
     ([Logger Error handleRequestErrorLine,
       SendResponse ''u-9''
         \<lparr>hashId = Some ''A'', status = FAILURE, command = Some (OTHER ''reboot''),
          requestPayload = Some [(''force'', JBool True)], commandResponse = None,
          errorMessage =
            Some (''Unknown worker broadcast channel command: '' @ [CHR 0x27] @ ''reboot'' @
                  [CHR 0x27]),
          errorStack = Some JUndefined, errorDetails = Some JUndefined\<rparr>],
      Returns ())"
proof -
  let ?p = "[(''force'', JBool True)]"
  let ?ev = "\<lparr>data = Request ''u-9'' (OTHER ''reboot'') ?p\<rparr>"
  have valid: "validateMessageEvent example_station ?ev = Some ?ev"
    by (simp add: example_station_def)
  have request: "\<not> isResponse example_station (data ?ev)"
    by (simp add: example_station_def)
  have shape: "data ?ev = Request ''u-9'' (OTHER ''reboot'') ?p"
    by simp
  have targeted: "nullish (get_prop ?p ''hashIds'') \<or>
      (\<exists>xs info. get_prop ?p ''hashIds'' = JArr xs \<and> stationInfo example_station = Some info \<and>
         JStr (ChargingStationInfo.hashId info) \<in> set xs)"
    by (simp add: get_prop_def)
  have legacy: "nullish (get_prop ?p ''hashId'')"
    by (simp add: get_prop_def)
  have unknown: "commandHandlers example_station (OTHER ''reboot'') = None"
    by simp
  have self: "stationHashId example_station = Some ''A''"
    by (simp add: stationHashId_def example_station_def)
  have stack: "errorStackOf example_station
      (unknownCommandMessage example_station (OTHER ''reboot'')) = JUndefined"
    by (simp add: example_station_def)
  show ?thesis
    using unknown_command_is_answered_with_failure [OF valid request shape targeted legacy unknown]
      valid unknown self stack
    by simp
qed

text \<open>What \<open>cleanRequestPayload\<close> leaves is the payload without the listed fields.\<close>

lemma cleanRequestPayload_filter:
  "cleanRequestPayload cmd payload = filter (\<lambda>kv. fst kv \<notin> spec_targeting_fields cmd) payload"
  by (auto simp: cleanRequestPayload_def delete_prop_def spec_targeting_fields_def Let_def
      intro: filter_cong)

lemma map_of_without:
  "map_of (filter (\<lambda>kv. fst kv \<notin> names) obj) k = (if k \<in> names then None else map_of obj k)"
  by (induction obj) auto

text \<open>
  C9. Before it calls a handler, the dispatcher removes \<open>hashId\<close> and \<open>hashIds\<close> from the
  request payload for every command, and \<open>connectorIds\<close> for every command but
  \<open>START_AUTOMATIC_TRANSACTION_GENERATOR\<close> and \<open>STOP_AUTOMATIC_TRANSACTION_GENERATOR\<close>. The
  handler is called with the payload so cleaned, which keeps every other field, with its
  value and in its place.
\<close>

theorem payload_is_cleaned_before_the_handler:
  assumes "commandHandlers env cmd = Some handler"
  shows "\<exists>cleaned.
           commandHandler env cmd payload =
             (cleaned, Invoke cmd cleaned # fst (handler cleaned), snd (handler cleaned)) \<and>
           cleaned = filter (\<lambda>kv. fst kv \<notin> spec_targeting_fields cmd) payload \<and>
           (\<forall>k. has_prop cleaned k = (has_prop payload k \<and> k \<notin> spec_targeting_fields cmd)) \<and>
           (\<forall>k. k \<notin> spec_targeting_fields cmd \<longrightarrow> get_prop cleaned k = get_prop payload k)"
  using assms
  by (auto simp: commandHandler_def Let_def and_then_def emit_def cleanRequestPayload_filter
        has_prop_def get_prop_def map_of_without)

theorem payload_is_cleaned_before_the_handler_witness:
  "commandHandlers example_station STOP_AUTOMATIC_TRANSACTION_GENERATOR \<noteq> None \<and>
   commandHandler example_station STOP_AUTOMATIC_TRANSACTION_GENERATOR
     [(''hashIds'', JArr [JStr ''A'']), (''connectorIds'', JArr [JNum 1])] =
     ([(''connectorIds'', JArr [JNum 1])],
      [Invoke STOP_AUTOMATIC_TRANSACTION_GENERATOR [(''connectorIds'', JArr [JNum 1])],
       StationCall (StopAutomaticTransactionGenerator (JArr [JNum 1]))],
      Returns None) \<and>
   commandHandlers example_station SET_SUPERVISION_URL \<noteq> None \<and>
   commandHandler example_station SET_SUPERVISION_URL
     [(''hashIds'', JArr [JStr ''A'']), (''url'', JStr ''ws://csms''), (''connectorIds'', JArr [JNum 1])] =
     ([(''url'', JStr ''ws://csms'')],
      [Invoke SET_SUPERVISION_URL [(''url'', JStr ''ws://csms'')],
       StationCall (SetSupervisionUrl (JStr ''ws://csms''))],
      Returns None)"
proof -
  let ?stop = "\<lambda>payload. lifecycle example_station
      (StopAutomaticTransactionGenerator (get_prop payload ''connectorIds''))"
  let ?url = "\<lambda>payload. lifecycle example_station (SetSupervisionUrl (get_prop payload ''url''))"
  have stop: "commandHandlers example_station STOP_AUTOMATIC_TRANSACTION_GENERATOR = Some ?stop"
    by simp
  have url: "commandHandlers example_station SET_SUPERVISION_URL = Some ?url"
    by simp
  show ?thesis
    using payload_is_cleaned_before_the_handler [OF stop,
        of "[(''hashIds'', JArr [JStr ''A'']), (''connectorIds'', JArr [JNum 1])]"]
      payload_is_cleaned_before_the_handler [OF url,
        of "[(''hashIds'', JArr [JStr ''A'']), (''url'', JStr ''ws://csms''),
             (''connectorIds'', JArr [JNum 1])]"]
    by (simp add: spec_targeting_fields_def lifecycle_def station_def and_then_def result_def
          get_prop_def example_station_def)
qed

section \<open>Numbers and dates: results\<close>

lemma round_half_even_of_int: "round_half_even (of_int m) = m"
  by (simp add: round_half_even_def)


lemma to_double_by_parts:
  assumes "x \<noteq> 0"
    and "binary64_exponent x = e"
    and "round_half_even (x / 2 powr of_int e) = m"
    and "\<bar>real_of_int m * 2 powr of_int e\<bar> < 2 powr 1024"
  shows "to_double x = Some (of_int m * 2 powr of_int e)"
  using assms by (simp add: to_double_def Let_def)


text \<open>A whole number below \<open>2 ^ 53\<close> in magnitude is a binary64 value.\<close>

lemma to_double_whole:
  assumes "\<bar>x\<bar> < 2 ^ 53" "x \<in> \<int>"
  shows "to_double x = Some x"
proof (cases "x = 0")
  case True
  then show ?thesis by (simp add: to_double_def)
next
  case False
  obtain n where n: "x = of_int n" using assms(2) by (auto elim: Ints_cases)
  define e where "e = binary64_exponent x"
  have "log 2 \<bar>x\<bar> < 53"
    using False assms(1) by (subst log_less_iff) (auto simp: powr_realpow)
  then have "\<lfloor>log 2 \<bar>x\<bar>\<rfloor> < 53" by linarith
  then have e: "e \<le> 0" by (simp add: e_def binary64_exponent_def)
  have p: "(2::real) powr of_int e = 1 / 2 ^ nat (- e)"
    using e by (simp add: powr_real_of_int field_simps)
  have "x / 2 powr of_int e = of_int (n * 2 ^ nat (- e))"
    unfolding p by (simp add: n)
  then have r: "round_half_even (x / 2 powr of_int e) = n * 2 ^ nat (- e)"
    using round_half_even_of_int by metis
  have same: "of_int (round_half_even (x / 2 powr of_int e)) * 2 powr of_int e = x"
    by (simp only: r) (simp add: p n)
  have "\<bar>x\<bar> < 2 powr 1024"
  proof -
    have "(2::real) ^ 53 \<le> 2 ^ 1024" by (rule power_increasing) auto
    moreover have "(2::real) powr 1024 = 2 ^ 1024" using powr_realpow [of "2::real" 1024] by simp
    ultimately show ?thesis using assms(1) by linarith
  qed
  then have "\<bar>real_of_int (n * 2 ^ nat (- e)) * 2 powr of_int e\<bar> < 2 powr 1024"
    using same by (simp only: r)
  with False e_def [symmetric] r
  have "to_double x = Some (of_int (n * 2 ^ nat (- e)) * 2 powr of_int e)"
    by (rule to_double_by_parts)
  then show ?thesis using same by (simp only: r)
qed

section \<open>The automatic transaction generator: results\<close>


text \<open>
  Wherever the generator sets \<open>started\<close> to false it has just lowered the flag of every
  connector above 0: in the constructor and in \<open>stop()\<close>.
\<close>

lemma stopConnectors_lowers_flags:
  "c \<in> set (connectors env) \<Longrightarrow> 0 < c \<Longrightarrow>
   connectorsStartStatus (stopConnectors env a) c = Some False"
proof -
  have "c \<in> set cs \<Longrightarrow> 0 < c \<Longrightarrow>
      connectorsStartStatus (foldl (\<lambda>a c. if c > 0 then stopConnector c a else a) a cs) c =
        Some False" for cs
    by (induction cs rule: rev_induct) (auto simp: stopConnector_def)
  then show "c \<in> set (connectors env) \<Longrightarrow> 0 < c \<Longrightarrow>
      connectorsStartStatus (stopConnectors env a) c = Some False"
    by (simp add: stopConnectors_def)
qed

lemma stop_lowers_flags:
  "started (atg rt) \<Longrightarrow> c \<in> set (connectors env) \<Longrightarrow> 0 < c \<Longrightarrow>
   \<not> started (atg (fst (stop env rt))) \<and>
   connectorsStartStatus (atg (fst (stop env rt))) c = Some False"
  by (simp add: stop_def perform_def stopConnectors_lowers_flags)

lemma new_ATG_lowers_flags:
  "c \<in> set (connectors env) \<Longrightarrow> 0 < c \<Longrightarrow>
   \<not> started (atg (new_ATG env)) \<and> connectorsStartStatus (atg (new_ATG env)) c = Some False"
  by (simp add: new_ATG_def stopConnectors_lowers_flags)

text \<open>
  C3. The data model asks that a generator which is not started has no connector flag
  raised, in every state that \<open>start()\<close>, \<open>stop()\<close> and the steps of the connector loops
  can reach. The code reaches states where this fails, because the flag is raised by the
  queued callback and not by \<open>start()\<close>. First run: \<open>start()\<close> and then \<open>stop()\<close> are
  called before the event loop gets to the callback of connector 1; the callback then
  raises the flag and its loop goes to sleep, on a generator that is stopped. Second run:
  nobody calls \<open>stop()\<close>, but the deadline has passed when the callbacks run; the loop of
  connector 1 stops the generator and ends, then the callback of connector 2 raises its
  flag, finds the generator already stopped and ends, and the flag stays up.
\<close>

theorem flag_raised_on_stopped_generator:
  "started
     (atg (run [(example_station, Start), (example_station, Stop), (example_station, Immediate)]
             (new_ATG example_station))) = False \<and>
   connectorsStartStatus
     (atg (run [(example_station, Start), (example_station, Stop), (example_station, Immediate)]
             (new_ATG example_station))) 1 = Some True \<and>
   map connectorId
     (loops (run [(example_station, Start), (example_station, Stop), (example_station, Immediate)]
               (new_ATG example_station))) = [1] \<and>
   started
     (atg (run [(example_station, Start), (example_station\<lparr>now := 900001\<rparr>, Immediate),
                (example_station\<lparr>now := 900001\<rparr>, Immediate)]
             (new_ATG example_station))) = False \<and>
   connectorsStartStatus
     (atg (run [(example_station, Start), (example_station\<lparr>now := 900001\<rparr>, Immediate),
                (example_station\<lparr>now := 900001\<rparr>, Immediate)]
             (new_ATG example_station))) 2 = Some True \<and>
   loops (run [(example_station, Start), (example_station\<lparr>now := 900001\<rparr>, Immediate),
               (example_station\<lparr>now := 900001\<rparr>, Immediate)]
            (new_ATG example_station)) = []"
  by (simp add: new_ATG_def example_station_def start_def stop_def runImmediate_def
        startConnector_def iteration_def stopConnectors_def stopConnector_def
        startConnectors_def perform_def unless_thrown_def logger_def logPrefix_def
        and_then_def emit_def result_def Let_def previousRunDuration_def
        configuredStopAfterHours_def CHARGING_STATION_ATG_DEFAULT_STOP_AFTER_HOURS_def
        new_Date_def to_double_whole
        leaveLoop_def sleepBetweenTransactions_def configuration_def)




















text \<open>
  C6. On a station whose request service is there, \<open>startTransaction\<close> follows the
  decision tree for every connector. Without authorised tags it calls
  \<open>sendStartTransaction\<close> with no id-tag and gives back what that call gives. With tags
  and \<open>requireAuthorize\<close> it first calls \<open>sendAuthorize\<close> with the chosen tag; when the
  status of the reply is not \<open>ACCEPTED\<close> it returns the reply unchanged and does not call
  \<open>sendStartTransaction\<close>, otherwise it calls \<open>sendStartTransaction\<close> with the tag and
  gives back what that call gives. With tags and no \<open>requireAuthorize\<close> it calls
  \<open>sendStartTransaction\<close> with the tag directly. Each call of \<open>sendStartTransaction\<close>
  comes after a log line, whose prefix needs the \<open>stationInfo\<close> of the station.
\<close>

theorem startTransaction_follows_decision_tree:
  assumes "ocppRequestService env"
  shows
  "(\<not> hasAuthorizedTags env \<and> stationInfo env \<noteq> None \<longrightarrow>
      ocpp_calls (fst (startTransaction env c)) = [SendStartTransaction c None] \<and>
      snd (startTransaction env c) = ocpp_answers env (SendStartTransaction c None)) \<and>
   (hasAuthorizedTags env \<and> getAutomaticTransactionGeneratorRequireAuthorize env \<longrightarrow>
      (\<forall>authorizeResponse.
         ocpp_answers env (SendAuthorize c (getRandomIdTag env)) = Returns authorizeResponse \<longrightarrow>
         (if idTagInfoStatus authorizeResponse = AuthorizationStatus_ACCEPTED
          then stationInfo env \<noteq> None \<longrightarrow>
               ocpp_calls (fst (startTransaction env c)) =
                 [SendAuthorize c (getRandomIdTag env),
                  SendStartTransaction c (Some (getRandomIdTag env))] \<and>
               snd (startTransaction env c) =
                 ocpp_answers env (SendStartTransaction c (Some (getRandomIdTag env)))
          else ocpp_calls (fst (startTransaction env c)) =
                 [SendAuthorize c (getRandomIdTag env)] \<and>
               snd (startTransaction env c) = Returns authorizeResponse))) \<and>
   (hasAuthorizedTags env \<and> \<not> getAutomaticTransactionGeneratorRequireAuthorize env \<and>
    stationInfo env \<noteq> None \<longrightarrow>
      ocpp_calls (fst (startTransaction env c)) =
        [SendStartTransaction c (Some (getRandomIdTag env))] \<and>
      snd (startTransaction env c) =
        ocpp_answers env (SendStartTransaction c (Some (getRandomIdTag env))))"
  using assms
  by (auto simp: startTransaction_def Let_def and_then_def emit_def ocpp_def result_def
        throw_def requestService_def logger_def logPrefix_def
      split: outcome.splits option.splits)

theorem startTransaction_follows_decision_tree_witness:
  "ocppRequestService example_station \<and> stationInfo example_station \<noteq> None \<and>
   hasAuthorizedTags example_station \<and>
   getAutomaticTransactionGeneratorRequireAuthorize example_station \<and>
   ocpp_answers example_station (SendAuthorize 1 (getRandomIdTag example_station)) =
     Returns (Some [(''idTagInfo'', JObj [(''status'', JStr ''Blocked'')])]) \<and>
   ocpp_calls (fst (startTransaction example_station 1)) = [SendAuthorize 1 ''T1''] \<and>
   snd (startTransaction example_station 1) =
     Returns (Some [(''idTagInfo'', JObj [(''status'', JStr ''Blocked'')])]) \<and>
   \<not> hasAuthorizedTags (example_station\<lparr>hasAuthorizedTags := False\<rparr>) \<and>
   ocpp_calls (fst (startTransaction (example_station\<lparr>hasAuthorizedTags := False\<rparr>) 1)) =
     [SendStartTransaction 1 None] \<and>
   \<not> getAutomaticTransactionGeneratorRequireAuthorize
       (example_station\<lparr>getAutomaticTransactionGeneratorRequireAuthorize := False\<rparr>) \<and>
   ocpp_calls
     (fst (startTransaction
             (example_station\<lparr>getAutomaticTransactionGeneratorRequireAuthorize := False\<rparr>) 1)) =
     [SendStartTransaction 1 (Some ''T1'')]"
proof -
  have service: "ocppRequestService example_station"
    "ocppRequestService (example_station\<lparr>hasAuthorizedTags := False\<rparr>)"
    "ocppRequestService
       (example_station\<lparr>getAutomaticTransactionGeneratorRequireAuthorize := False\<rparr>)"
    by (simp_all add: example_station_def)
  have info: "stationInfo example_station \<noteq> None"
    "stationInfo (example_station\<lparr>hasAuthorizedTags := False\<rparr>) \<noteq> None"
    "stationInfo (example_station\<lparr>getAutomaticTransactionGeneratorRequireAuthorize := False\<rparr>) \<noteq>
       None"
    by (simp_all add: example_station_def)
  have tags: "hasAuthorizedTags example_station"
    and authorize: "getAutomaticTransactionGeneratorRequireAuthorize example_station"
    and tag: "getRandomIdTag example_station = ''T1''"
    and blocked: "ocpp_answers example_station (SendAuthorize 1 ''T1'') =
      Returns (Some [(''idTagInfo'', JObj [(''status'', JStr ''Blocked'')])])"
    by (simp_all add: example_station_def)
  have rejected: "idTagInfoStatus (Some [(''idTagInfo'', JObj [(''status'', JStr ''Blocked'')])]) \<noteq>
      AuthorizationStatus_ACCEPTED"
    by (simp add: get_prop_def AuthorizationStatus_ACCEPTED_def)
  have reads:
    "\<not> hasAuthorizedTags (example_station\<lparr>hasAuthorizedTags := False\<rparr>)"
    "hasAuthorizedTags (example_station\<lparr>getAutomaticTransactionGeneratorRequireAuthorize := False\<rparr>)"
    "\<not> getAutomaticTransactionGeneratorRequireAuthorize
        (example_station\<lparr>getAutomaticTransactionGeneratorRequireAuthorize := False\<rparr>)"
    "getRandomIdTag (example_station\<lparr>getAutomaticTransactionGeneratorRequireAuthorize := False\<rparr>) =
       ''T1''"
    by (simp_all add: example_station_def)
  show ?thesis
    using startTransaction_follows_decision_tree [OF service(1), of 1]
      startTransaction_follows_decision_tree [OF service(2), of 1]
      startTransaction_follows_decision_tree [OF service(3), of 1]
      service(1) info tags authorize tag blocked rejected reads
    by simp
qed

text \<open>
  C7. For a connector with no transaction started (or no such connector), on a station
  that has its \<open>stationInfo\<close>, \<open>stopTransaction\<close> calls nothing on the request service: it
  opens its measurement, logs a warning, closes the measurement and returns an undefined
  response. For a connector with \<open>transactionStarted\<close> true, on a station whose request
  service is there, it calls \<open>sendStopTransaction\<close> with the transaction id of the
  connector, the energy register of the station for that transaction, the id-tag of the
  transaction and the given reason, and gives back what that call gives.
\<close>

theorem stopTransaction_by_transaction_state:
  "(stationInfo env \<noteq> None \<and>
    (\<forall>connector. getConnector env c = Some connector \<longrightarrow>
        transactionStarted connector \<noteq> Some True) \<longrightarrow>
      stopTransaction env c reason =
        ([BeginMeasure ''StopTransaction with ATG'',
          Logger Warn ''trying to stop a not started transaction'',
          EndMeasure ''StopTransaction with ATG'' (beginMeasure env ''StopTransaction with ATG'')],
         Returns None)) \<and>
   (\<forall>connector.
      ocppRequestService env \<and>
      getConnector env c = Some connector \<and> transactionStarted connector = Some True \<longrightarrow>
      ocpp_calls (fst (stopTransaction env c reason)) =
        [SendStopTransaction (number (transactionId connector))
           (getEnergyActiveImportRegisterByTransactionId env (number (transactionId connector)) None)
           (getTransactionIdTag env (number (transactionId connector))) reason] \<and>
      snd (stopTransaction env c reason) =
        ocpp_answers env
          (SendStopTransaction (number (transactionId connector))
             (getEnergyActiveImportRegisterByTransactionId env (number (transactionId connector))
                None)
             (getTransactionIdTag env (number (transactionId connector))) reason))"
  by (auto simp: stopTransaction_def connectorInTransaction_def Let_def and_then_def emit_def
        ocpp_def result_def throw_def requestService_def logger_def logPrefix_def
      split: outcome.splits option.splits)

theorem stopTransaction_by_transaction_state_witness:
  "stationInfo example_station \<noteq> None \<and> ocppRequestService example_station \<and>
   getConnector example_station 2 = Some \<lparr>transactionStarted = Some False, transactionId = None\<rparr> \<and>
   stopTransaction example_station 2 NONE =
     ([BeginMeasure ''StopTransaction with ATG'',
       Logger Warn ''trying to stop a not started transaction'',
       EndMeasure ''StopTransaction with ATG'' ''beginStopTransaction with ATG''],
      Returns None) \<and>
   getConnector example_station 1 = Some \<lparr>transactionStarted = Some True, transactionId = Some 7\<rparr> \<and>
   ocpp_calls (fst (stopTransaction example_station 1 NONE)) =
     [SendStopTransaction (JNum 7) (JNum 1500) ''T1'' NONE] \<and>
   snd (stopTransaction example_station 1 NONE) = Returns (Some [accepted_idTagInfo])"
proof -
  have info: "stationInfo example_station \<noteq> None"
    and service: "ocppRequestService example_station"
    by (simp_all add: example_station_def)
  have idle: "getConnector example_station 2 =
      Some \<lparr>transactionStarted = Some False, transactionId = None\<rparr>"
    and busy: "getConnector example_station 1 =
      Some \<lparr>transactionStarted = Some True, transactionId = Some 7\<rparr>"
    by (simp_all add: example_station_def)
  have reads:
    "beginMeasure example_station ''StopTransaction with ATG'' = ''beginStopTransaction with ATG''"
    "getEnergyActiveImportRegisterByTransactionId example_station (JNum 7) None = JNum 1500"
    "getTransactionIdTag example_station (JNum 7) = ''T1''"
    "ocpp_answers example_station (SendStopTransaction (JNum 7) (JNum 1500) ''T1'' NONE) =
       Returns (Some [accepted_idTagInfo])"
    by (simp_all add: example_station_def)
  show ?thesis
    using stopTransaction_by_transaction_state [of example_station 2 NONE]
      stopTransaction_by_transaction_state [of example_station 1 NONE]
      info service idle busy reads
    by simp
qed

text \<open>Without \<open>stationInfo\<close> the warning cannot be built: the call throws and the measurement stays open.\<close>

lemma stopTransaction_without_stationInfo:
  "stationInfo env = None \<Longrightarrow> getConnector env c = None \<Longrightarrow>
   stopTransaction env c reason =
     ([BeginMeasure ''StopTransaction with ATG''], Throws (engineTypeError env))"
  by (simp add: stopTransaction_def connectorInTransaction_def Let_def and_then_def emit_def
        throw_def logger_def logPrefix_def)

lemma startTransaction_without_stationInfo:
  "stationInfo env = None \<Longrightarrow> \<not> hasAuthorizedTags env \<Longrightarrow>
   startTransaction env c =
     ([BeginMeasure ''StartTransaction with ATG''], Throws (engineTypeError env))"
  by (simp add: startTransaction_def Let_def and_then_def emit_def throw_def logger_def
        logPrefix_def)

end
